theory Spec2Isabelle
  imports Complex_Main "HOL-Library.Sublist" "HOL-Library.Log_Nat"
begin

section \<open>Strings\<close>

text \<open>
  A JavaScript string is a sequence of code units; it is modelled as a \<open>string\<close>
  (a list of characters). \<open>String.prototype.includes\<close> is the test for a contiguous
  occurrence: the needle is a prefix of some suffix of the receiver.
\<close>

fun str_includes :: "string \<Rightarrow> string \<Rightarrow> bool" where
  "str_includes [] t = (t = [])"
| "str_includes (c # s) t = (prefix t (c # s) \<or> str_includes s t)"

text \<open>
  \<open>String.prototype.toLowerCase\<close> is the Unicode lowering of the run-time system.
  Its case tables are no part of the repository, so the operations that use it take the
  lowering as a parameter \<open>lc\<close>. On strings of ASCII characters the run-time lowering is
  \<open>toLowerCaseASCII\<close>, which is used for the concrete scenarios.
\<close>

definition lowerChar :: "char \<Rightarrow> char" where
  "lowerChar c =
     (case map_of (zip ''ABCDEFGHIJKLMNOPQRSTUVWXYZ'' ''abcdefghijklmnopqrstuvwxyz'') c of
        None \<Rightarrow> c
      | Some d \<Rightarrow> d)"

definition toLowerCaseASCII :: "string \<Rightarrow> string" where
  "toLowerCaseASCII s = map lowerChar s"

text \<open>
  \<open>Array.prototype.join\<close> on an array whose elements are already converted to strings,
  and \<open>String.prototype.split\<close> with a separator of one character, which yields one
  piece more than the string has separators: the string is read from the left, the
  piece at hand ending at each separator and at the end.
\<close>

fun array_join :: "string \<Rightarrow> string list \<Rightarrow> string" where
  "array_join sep [] = []"
| "array_join sep [x] = x"
| "array_join sep (x # y # ys) = x @ sep @ array_join sep (y # ys)"

fun split_from :: "char \<Rightarrow> string \<Rightarrow> string \<Rightarrow> string list" where
  "split_from d piece [] = [piece]"
| "split_from d piece (c # s) =
     (if c = d then piece # split_from d [] s else split_from d (piece @ [c]) s)"

definition str_split :: "char \<Rightarrow> string \<Rightarrow> string list" where
  "str_split d s = split_from d [] s"

definition newline :: char where
  "newline = CHR 0x0A"

section \<open>Stations and the search filter\<close>

text \<open>
  A station record of the \<open>/Stations\<close> response. Each of the three fields read by the
  filter is a string or nullish (\<open>undefined\<close> or \<open>null\<close>, here \<open>None\<close>): the filter
  reaches every field through the optional chaining operator \<open>?.\<close>, which yields
  \<open>undefined\<close> for the whole chain when the field is nullish.
\<close>

record station =
  stationId :: "string option"
  stationName :: "string option"
  riverName :: "string option"

text \<open>
  The callback of \<open>stations.filter\<close> (App.jsx, lines 57 to 61), with \<open>term\<close> the search
  term already lowered:
  \<^verbatim>\<open>s.stationName?.toLowerCase().includes(term) ||
  s.riverName?.toLowerCase().includes(term) ||
  s.stationId?.includes(term)\<close>
  A chain on a nullish field is \<open>undefined\<close>, which is falsy. The identifier is compared
  as it is: it is not lowered.
\<close>

definition stationMatches :: "(string \<Rightarrow> string) \<Rightarrow> string \<Rightarrow> station \<Rightarrow> bool" where
  "stationMatches lc term s =
     ((case stationName s of None \<Rightarrow> False | Some n \<Rightarrow> str_includes (lc n) term) \<or>
      (case riverName s of None \<Rightarrow> False | Some r \<Rightarrow> str_includes (lc r) term) \<or>
      (case stationId s of None \<Rightarrow> False | Some i \<Rightarrow> str_includes i term))"

text \<open>
  The body of the search effect (App.jsx, lines 50 to 63): the value it stores in
  \<open>filteredStations\<close>, as a function of the catalog and the search term. The empty
  string is the only falsy string.
\<close>

definition filterStations :: "(string \<Rightarrow> string) \<Rightarrow> station list \<Rightarrow> string \<Rightarrow> station list" where
  "filterStations lc stations searchTerm =
     (if searchTerm = [] then stations
      else filter (stationMatches lc (lc searchTerm)) stations)"

text \<open>
  The reading of the specification: a field contains the term as a case-insensitive
  substring when the lowered term occurs in the lowered field; an absent field
  contains nothing.
\<close>

definition containsCI :: "(string \<Rightarrow> string) \<Rightarrow> string option \<Rightarrow> string \<Rightarrow> bool" where
  "containsCI lc field t = (case field of None \<Rightarrow> False | Some f \<Rightarrow> sublist (lc t) (lc f))"

definition specMatches :: "(string \<Rightarrow> string) \<Rightarrow> string \<Rightarrow> station \<Rightarrow> bool" where
  "specMatches lc t s =
     (containsCI lc (stationName s) t \<or> containsCI lc (riverName s) t \<or> containsCI lc (stationId s) t)"

definition scenario1 :: "station list" where
  "scenario1 =
     [\<lparr>stationId = Some ''1'', stationName = Some ''Elv A'', riverName = Some ''Glomma''\<rparr>,
      \<lparr>stationId = Some ''2'', stationName = Some ''Elv B'', riverName = Some ''Gaula''\<rparr>]"

section \<open>Numbers\<close>

text \<open>
  A JavaScript number is an IEEE 754 double. A finite double is modelled by the rational
  it denotes (the two zeros are one value: every operation below treats them alike), and
  the three special values are constructors of their own. The arithmetic operations
  round their exact result to a double, so every number they return is one; what is
  proved below of all rationals holds of the doubles among them.
\<close>

datatype number = Finite rat | PosInf | NegInf | NaN

definition pow2 :: "int \<Rightarrow> rat" where
  "pow2 e = (if 0 \<le> e then 2 ^ nat e else 1 / 2 ^ nat (- e))"

text \<open>Rounding to the nearest integer, a tie going to the even neighbour.\<close>

definition roundHalfEven :: "rat \<Rightarrow> int" where
  "roundHalfEven x =
     (let f = \<lfloor>x\<rfloor>; d = x - of_int f
      in if d < 1 / 2 then f else if 1 / 2 < d then f + 1 else if even f then f else f + 1)"

text \<open>The binary exponent of a positive rational \<open>x\<close>: the \<open>e\<close> with \<open>2^e \<le> x < 2^(e+1)\<close>.\<close>

definition binaryExponent :: "rat \<Rightarrow> int" where
  "binaryExponent x =
     (let (a, b) = quotient_of x; d = bitlen a - bitlen b
      in if pow2 d \<le> x then d else d - 1)"

text \<open>
  The rounding that every arithmetic operation on doubles ends with: to the nearest value
  with a significand of 53 bits (of the fixed quantum \<open>2^-1074\<close> below \<open>2^-1022\<close>), ties to
  even, and to an infinity from \<open>2^1024\<close> on.
\<close>

definition roundToDouble :: "rat \<Rightarrow> number" where
  "roundToDouble x =
     (if x = 0 then Finite 0
      else let e = max (binaryExponent \<bar>x\<bar>) (- 1022);
               q = pow2 (e - 52);
               r = of_int (roundHalfEven (x / q)) * q
           in if pow2 1024 \<le> \<bar>r\<bar> then (if 0 < x then PosInf else NegInf) else Finite r)"

text \<open>The operator \<open>+\<close> on two numbers.\<close>

fun js_add :: "number \<Rightarrow> number \<Rightarrow> number" where
  "js_add NaN _ = NaN"
| "js_add _ NaN = NaN"
| "js_add PosInf NegInf = NaN"
| "js_add NegInf PosInf = NaN"
| "js_add PosInf _ = PosInf"
| "js_add _ PosInf = PosInf"
| "js_add NegInf _ = NegInf"
| "js_add _ NegInf = NegInf"
| "js_add (Finite a) (Finite b) = roundToDouble (a + b)"

text \<open>
  The operator \<open>/\<close> with an array length as divisor: a non-negative integer, hence never
  \<open>NaN\<close>, never infinite and never the negative zero.
\<close>

fun js_div_length :: "number \<Rightarrow> nat \<Rightarrow> number" where
  "js_div_length NaN n = NaN"
| "js_div_length PosInf n = PosInf"
| "js_div_length NegInf n = NegInf"
| "js_div_length (Finite a) n =
     (if n = 0 then (if a = 0 then NaN else if 0 < a then PosInf else NegInf)
      else roundToDouble (a / of_nat n))"

text \<open>The comparisons \<open><\<close> and \<open><=\<close>: both are false as soon as one side is \<open>NaN\<close>.\<close>

fun js_lt :: "number \<Rightarrow> number \<Rightarrow> bool" where
  "js_lt NaN _ = False"
| "js_lt _ NaN = False"
| "js_lt PosInf _ = False"
| "js_lt _ PosInf = True"
| "js_lt _ NegInf = False"
| "js_lt NegInf _ = True"
| "js_lt (Finite a) (Finite b) = (a < b)"

definition js_le :: "number \<Rightarrow> number \<Rightarrow> bool" where
  "js_le a b = (a \<noteq> NaN \<and> b \<noteq> NaN \<and> \<not> js_lt b a)"

text \<open>
  \<open>Math.min\<close> and \<open>Math.max\<close> applied to the elements of an array: \<open>NaN\<close> as soon as one
  element is \<open>NaN\<close>; otherwise the running extremum, which starts at \<open>+Infinity\<close> for the
  minimum and at \<open>-Infinity\<close> for the maximum, so that these are the results for no
  element at all.
\<close>

fun Math_min_from :: "number \<Rightarrow> number list \<Rightarrow> number" where
  "Math_min_from lowest [] = lowest"
| "Math_min_from lowest (v # vs) =
     (if v = NaN then NaN else Math_min_from (if js_lt v lowest then v else lowest) vs)"

fun Math_max_from :: "number \<Rightarrow> number list \<Rightarrow> number" where
  "Math_max_from highest [] = highest"
| "Math_max_from highest (v # vs) =
     (if v = NaN then NaN else Math_max_from (if js_lt highest v then v else highest) vs)"

definition Math_min :: "number list \<Rightarrow> number" where
  "Math_min vs = Math_min_from PosInf vs"

definition Math_max :: "number list \<Rightarrow> number" where
  "Math_max vs = Math_max_from NegInf vs"

section \<open>Observation series and derived views\<close>

text \<open>
  An observation of the \<open>/Observations\<close> response: the timestamp as the text received,
  and the value, a number or \<open>null\<close> (\<open>None\<close>).
\<close>

record observation =
  obs_time :: string
  obs_value :: "number option"

text \<open>The \<open>stationData\<close> object built by \<open>fetchStationData\<close> (App.jsx, lines 90 to 96).\<close>

record series =
  seriesStationId :: string
  seriesStationName :: string
  seriesParameter :: string
  unit :: string
  observations :: "observation list"

text \<open>
  The expression \<open>o.value || 0\<close>: the value when it is truthy, else 0. The falsy values
  of an observation are \<open>null\<close>, zero and \<open>NaN\<close>.
\<close>

definition valueOrZero :: "number option \<Rightarrow> number" where
  "valueOrZero v =
     (case v of None \<Rightarrow> Finite 0
      | Some x \<Rightarrow> if x = NaN \<or> x = Finite 0 then Finite 0 else x)"

record derivedStats =
  count :: nat
  min_value :: number
  max_value :: number
  avg :: number

text \<open>
  A call that spreads an array into the argument list, as in \<open>Math.min(...values)\<close>,
  passes one argument per element. The run-time system accepts only so many arguments
  in one call and throws a \<open>RangeError\<close> beyond; how many is a property of the engine
  (65536 in one of the common ones), a parameter \<open>maxArguments\<close> here.
\<close>

datatype jsError = RangeError

definition spreadCall :: "nat \<Rightarrow> (number list \<Rightarrow> number) \<Rightarrow> number list \<Rightarrow> jsError + number" where
  "spreadCall maxArguments f args =
     (if maxArguments < length args then Inl RangeError else Inr (f args))"

text \<open>
  The constant \<open>stats\<close> (App.jsx, lines 131 to 136; \<open>computeStats\<close> in the
  specification), as a function of \<open>stationData\<close>; \<open>null\<close> is \<open>None\<close>:
  \<^verbatim>\<open>count: stationData.observations.length,
  min: Math.min(...stationData.observations.map(o => o.value || 0)),
  max: Math.max(...stationData.observations.map(o => o.value || 0)),
  avg: stationData.observations.reduce((sum, o) => sum + (o.value || 0), 0)
         / stationData.observations.length\<close>
  The fields are evaluated in this order, and an error thrown by one of the two spread
  calls is the outcome of the whole expression.
\<close>

definition stats :: "nat \<Rightarrow> series option \<Rightarrow> jsError + derivedStats option" where
  "stats maxArguments stationData =
     (case stationData of
        None \<Rightarrow> Inr None
      | Some sd \<Rightarrow>
          (case spreadCall maxArguments Math_min
                  (map (\<lambda>obs. valueOrZero (obs_value obs)) (observations sd)) of
             Inl err \<Rightarrow> Inl err
           | Inr lowest \<Rightarrow>
               (case spreadCall maxArguments Math_max
                       (map (\<lambda>obs. valueOrZero (obs_value obs)) (observations sd)) of
                  Inl err \<Rightarrow> Inl err
                | Inr highest \<Rightarrow>
                    Inr (Some
                      \<lparr>count = length (observations sd),
                       min_value = lowest,
                       max_value = highest,
                       avg = js_div_length
                               (foldl (\<lambda>total obs. js_add total (valueOrZero (obs_value obs)))
                                  (Finite 0) (observations sd))
                               (length (observations sd))\<rparr>))))"

text \<open>
  The constant \<open>chartData\<close> (App.jsx, lines 121 to 129). The label is the timestamp
  formatted by \<open>toLocaleDateString\<close> of the run-time system, a parameter \<open>fmt\<close> here;
  the value is passed through. An array, even the empty one, is truthy: \<open>|| []\<close> only
  replaces the \<open>undefined\<close> of an absent \<open>stationData\<close>.
\<close>

record chartPoint =
  point_time :: string
  point_value :: "number option"

definition chartData :: "(string \<Rightarrow> string) \<Rightarrow> series option \<Rightarrow> chartPoint list" where
  "chartData fmt stationData =
     (case stationData of
        None \<Rightarrow> []
      | Some sd \<Rightarrow>
          map (\<lambda>obs. \<lparr>point_time = fmt (obs_time obs), point_value = obs_value obs\<rparr>)
            (observations sd))"

text \<open>
  The text built by \<open>downloadCSV\<close> (App.jsx, lines 107 to 112; \<open>toDelimitedText\<close> in
  the specification):
  \<^verbatim>\<open>const headers = ['Time', `Value (${stationData.unit})`];
  const rows = stationData.observations.map(obs => [obs.time, obs.value].join(','));
  const csv = [headers.join(','), ...rows].join('\n');\<close>
  \<open>join\<close> converts each element to a string: \<open>null\<close> to the empty string, a number by the
  number-to-string conversion of the run-time system, a parameter \<open>nts\<close> here.
\<close>

definition csvField :: "(number \<Rightarrow> string) \<Rightarrow> number option \<Rightarrow> string" where
  "csvField nts v = (case v of None \<Rightarrow> [] | Some x \<Rightarrow> nts x)"

definition csvRow :: "(number \<Rightarrow> string) \<Rightarrow> observation \<Rightarrow> string" where
  "csvRow nts obs = array_join '','' [obs_time obs, csvField nts (obs_value obs)]"

definition toDelimitedText :: "(number \<Rightarrow> string) \<Rightarrow> series \<Rightarrow> string" where
  "toDelimitedText nts sd =
     (let headers = [''Time'', ''Value ('' @ unit sd @ '')''];
          rows = map (csvRow nts) (observations sd)
      in array_join [newline] (array_join '','' headers # rows))"

section \<open>Session state and its operations\<close>

text \<open>
  The requests sent to the remote interface: the station list, with the key, and the
  observations, with the key and the query parameters \<open>StationId\<close>, \<open>Parameter\<close> and
  \<open>ReferenceTime\<close> (\<open>ResolutionTime\<close> is always \<open>0\<close>).
\<close>

datatype request =
    GetStations string
  | GetObservations string string string string

text \<open>
  What becomes of a request. \<open>fetch\<close> rejects (\<open>NetworkError\<close>, with the message of the
  error), or it resolves with a response of some HTTP status, whatever the status. Then
  either reading the response throws (\<open>BodyError\<close>, with the message of the error:
  \<open>response.json()\<close> rejects because the body is no JSON text, or the body is the JSON
  \<open>null\<close> and the read of its \<open>data\<close> property throws), or the body is a JSON value whose
  \<open>data\<close> property is read (\<open>Body\<close>): an array, or \<open>None\<close> when the property is missing
  or \<open>null\<close>.
\<close>

datatype 'a response =
    NetworkError string
  | BodyError nat string
  | Body nat "'a list option"

text \<open>An entry of the \<open>data\<close> array of the \<open>/Observations\<close> response.\<close>

record seriesGroup =
  groupStationId :: string
  groupStationName :: string
  parameterName :: string
  groupUnit :: string
  groupObservations :: "observation list option"

text \<open>A file offered to the user: its name and its text (of type \<open>text/csv\<close>).\<close>

record download =
  fileName :: string
  content :: string

text \<open>
  The component exists in two versions. The operations modelled here are those of
  \<open>src/App.jsx\<close>; the earlier version has the same search effect, \<open>fetchStations\<close>,
  \<open>downloadCSV\<close>, \<open>chartData\<close> and \<open>stats\<close>, word for word, and its \<open>fetchStationData\<close>
  differs only in sending the fixed parameter code \<open>1000\<close> instead of the selected one.
\<close>

text \<open>
  The state of the component \<open>App\<close> (App.jsx, lines 8 to 18), together with what the
  component has done to the world outside: the requests sent, the messages shown by
  \<open>alert\<close>, and the files offered.
\<close>

record session =
  apiKey :: string
  stations :: "station list"
  filteredStations :: "station list"
  searchTerm :: string
  selectedStation :: "station option"
  stationData :: "series option"
  loading :: bool
  startDate :: string
  endDate :: string
  parameter :: string
  showApiKeyInput :: bool
  requests :: "request list"
  alerts :: "string list"
  downloads :: "download list"

text \<open>
  The state before the first event, for the key \<open>key\<close> of the build environment (the
  empty string when there is none) and the two dates set by the first effect (lines 20
  to 27).
\<close>

definition initialSession :: "string \<Rightarrow> string \<Rightarrow> string \<Rightarrow> session" where
  "initialSession key weekAgo today =
     \<lparr>apiKey = key, stations = [], filteredStations = [], searchTerm = [],
      selectedStation = None, stationData = None, loading = False,
      startDate = weekAgo, endDate = today, parameter = ''1001'',
      showApiKeyInput = (key = []), requests = [], alerts = [], downloads = []\<rparr>"

text \<open>
  \<open>fetchStations\<close> (App.jsx, lines 29 to 48), from its call to the end of its
  continuation, given what becomes of the request. The status of the response is never
  read. \<open>data.data || []\<close> is the array when there is one.
\<close>

definition fetchStations :: "session \<Rightarrow> station response \<Rightarrow> session" where
  "fetchStations st resp =
     (if apiKey st = [] then st
      else
        let st1 = st\<lparr>loading := True, requests := requests st @ [GetStations (apiKey st)]\<rparr>;
            st2 =
              (case resp of
                 NetworkError msg \<Rightarrow>
                   st1\<lparr>alerts := alerts st1 @ [''Error fetching stations: '' @ msg]\<rparr>
               | BodyError status msg \<Rightarrow>
                   st1\<lparr>alerts := alerts st1 @ [''Error fetching stations: '' @ msg]\<rparr>
               | Body status d \<Rightarrow>
                   st1\<lparr>stations := (case d of None \<Rightarrow> [] | Some xs \<Rightarrow> xs),
                       filteredStations := (case d of None \<Rightarrow> [] | Some xs \<Rightarrow> xs),
                       showApiKeyInput := False\<rparr>)
        in st2\<lparr>loading := False\<rparr>)"

text \<open>The search effect (App.jsx, lines 50 to 63), run when the term or the catalog changes.\<close>

definition searchEffect :: "(string \<Rightarrow> string) \<Rightarrow> session \<Rightarrow> session" where
  "searchEffect lc st = st\<lparr>filteredStations := filterStations lc (stations st) (searchTerm st)\<rparr>"

text \<open>
  The argument of \<open>fetchStationData\<close> is the \<open>stationId\<close> of a station: a string, or
  \<open>undefined\<close> when the station has no such field, or \<open>null\<close> when the field is the JSON
  \<open>null\<close>. \<open>URLSearchParams\<close> writes each value as a string: the two nullish ones as
  the texts \<open>undefined\<close> and \<open>null\<close>.
\<close>

datatype stationIdArgument = IdUndefined | IdNull | IdString string

fun queryText :: "stationIdArgument \<Rightarrow> string" where
  "queryText IdUndefined = ''undefined''"
| "queryText IdNull = ''null''"
| "queryText (IdString i) = i"

text \<open>
  \<open>fetchStationData\<close> (App.jsx, lines 65 to 102), from its call to the end of its
  continuation, given what becomes of the request. The guard reads the key and the two
  dates, nothing else. Only the first entry of \<open>data\<close> is used, and
  \<open>data.observations || []\<close> is the array when there is one.
\<close>

definition fetchStationData ::
    "session \<Rightarrow> stationIdArgument \<Rightarrow> seriesGroup response \<Rightarrow> session" where
  "fetchStationData st sid resp =
     (if apiKey st = [] \<or> startDate st = [] \<or> endDate st = [] then st
      else
        let st1 = st\<lparr>loading := True, stationData := None,
                      requests := requests st @
                        [GetObservations (apiKey st) (queryText sid) (parameter st)
                           (startDate st @ ''/'' @ endDate st)]\<rparr>;
            st2 =
              (case resp of
                 NetworkError msg \<Rightarrow>
                   st1\<lparr>alerts := alerts st1 @ [''Error fetching station data: '' @ msg]\<rparr>
               | BodyError status msg \<Rightarrow>
                   st1\<lparr>alerts := alerts st1 @ [''Error fetching station data: '' @ msg]\<rparr>
               | Body status d \<Rightarrow>
                   (case d of
                      Some (g # gs) \<Rightarrow>
                        st1\<lparr>stationData := Some
                              \<lparr>seriesStationId = groupStationId g,
                               seriesStationName = groupStationName g,
                               seriesParameter = parameterName g,
                               unit = groupUnit g,
                               observations =
                                 (case groupObservations g of None \<Rightarrow> [] | Some os \<Rightarrow> os)\<rparr>\<rparr>
                    | _ \<Rightarrow> st1))
        in st2\<lparr>loading := False\<rparr>)"

text \<open>
  \<open>downloadCSV\<close> (App.jsx, lines 104 to 119): nothing without a series or with an empty
  one; otherwise the text is offered as the file
  \<open><stationId>_<startDate>_<endDate>.csv\<close>.
\<close>

definition downloadCSV :: "(number \<Rightarrow> string) \<Rightarrow> session \<Rightarrow> session" where
  "downloadCSV nts st =
     (case stationData st of
        None \<Rightarrow> st
      | Some sd \<Rightarrow>
          if observations sd = [] then st
          else st\<lparr>downloads := downloads st @
                 [\<lparr>fileName = seriesStationId sd @ ''_'' @ startDate st @ ''_'' @ endDate st @ ''.csv'',
                   content = toDelimitedText nts sd\<rparr>]\<rparr>)"

section \<open>The readings of the specification and the concrete inputs\<close>





text \<open>
  Statistics that are undefined: there is no statistics object, because the evaluation
  throws or because its value is \<open>null\<close>, or each field of the object that holds a number
  holds \<open>NaN\<close>.
\<close>

definition statsUndefined :: "jsError + derivedStats option \<Rightarrow> bool" where
  "statsUndefined r =
     (case r of
        Inl err \<Rightarrow> True
      | Inr None \<Rightarrow> True
      | Inr (Some st) \<Rightarrow> min_value st = NaN \<and> max_value st = NaN \<and> avg st = NaN)"

text \<open>A request has failed: no response, no JSON body, or a status outside 200 to 299.\<close>

definition fetchFailed :: "'a response \<Rightarrow> bool" where
  "fetchFailed resp =
     (case resp of
        NetworkError msg \<Rightarrow> True
      | BodyError status msg \<Rightarrow> True
      | Body status d \<Rightarrow> \<not> (200 \<le> status \<and> status \<le> 299))"

text \<open>The series of Scenario 2, with the unit of Scenario 5.\<close>

definition scenario2 :: series where
  "scenario2 =
     \<lparr>seriesStationId = ''1'', seriesStationName = ''Elv A'', seriesParameter = ''Vannf'',
      unit = ''m3/s'',
      observations =
        [\<lparr>obs_time = ''t1'', obs_value = Some (Finite 10)\<rparr>,
         \<lparr>obs_time = ''t2'', obs_value = None\<rparr>,
         \<lparr>obs_time = ''t3'', obs_value = Some (Finite 20)\<rparr>]\<rparr>"

text \<open>A series without observations.\<close>

definition emptySeries :: series where
  "emptySeries =
     \<lparr>seriesStationId = ''1'', seriesStationName = ''Elv A'', seriesParameter = ''Vannf'',
      unit = ''m3/s'', observations = []\<rparr>"





text \<open>A series whose unit holds a line break.\<close>

definition twoLineUnit :: series where
  "twoLineUnit =
     \<lparr>seriesStationId = ''1'', seriesStationName = ''Elv A'', seriesParameter = ''Vannf'',
      unit = ''m3'' @ [newline] @ ''s'',
      observations = [\<lparr>obs_time = ''t1'', obs_value = Some (Finite 10)\<rparr>]\<rparr>"

text \<open>
  The number-to-string conversion on the integers below \<open>10^21\<close> and on the special
  values, where it is the decimal numeral and the name. It stands for the conversion of
  the run-time system in the concrete scenarios, whose numbers are integers; of a
  finite value that is no integer it prints the integral part only, which the run-time
  system does not.
\<close>

definition digitChar :: "nat \<Rightarrow> char" where
  "digitChar d = ''0123456789'' ! d"

fun natToString :: "nat \<Rightarrow> string" where
  "natToString n =
     (if n < 10 then [digitChar n] else natToString (n div 10) @ [digitChar (n mod 10)])"

definition integralToString :: "number \<Rightarrow> string" where
  "integralToString v =
     (case v of
        NaN \<Rightarrow> ''NaN''
      | PosInf \<Rightarrow> ''Infinity''
      | NegInf \<Rightarrow> ''-Infinity''
      | Finite r \<Rightarrow> (if r < 0 then ''-'' else []) @ natToString (nat \<lfloor>\<bar>r\<bar>\<rfloor>))"

text \<open>
  A session after a successful connection: a key, the two dates, the catalog of
  Scenario 1 and the series of Scenario 2.
\<close>

definition connectedSession :: session where
  "connectedSession =
     (initialSession ''key'' ''2024-01-01'' ''2024-01-08'')
       \<lparr>stations := scenario1, filteredStations := scenario1,
        stationData := Some scenario2, showApiKeyInput := False\<rparr>"

declare natToString.simps [simp del]

section \<open>Rounding to a double\<close>




















section \<open>The order of numbers, minimum and maximum\<close>


lemma js_lt_trans: "js_lt a b \<Longrightarrow> js_lt b c \<Longrightarrow> js_lt a c"
  by (cases a; cases b; cases c) simp_all

lemma js_lt_asym: "js_lt a b \<Longrightarrow> \<not> js_lt b a"
  by (cases a; cases b) simp_all

lemma js_lt_total: "a \<noteq> NaN \<Longrightarrow> b \<noteq> NaN \<Longrightarrow> js_lt a b \<or> a = b \<or> js_lt b a"
  by (cases a; cases b) auto




lemma js_le_PosInf: "a \<noteq> NaN \<Longrightarrow> js_le a PosInf"
  unfolding js_le_def by (cases a) simp_all

lemma js_le_NegInf: "a \<noteq> NaN \<Longrightarrow> js_le NegInf a"
  unfolding js_le_def by (cases a) simp_all










section \<open>Splitting, joining and printing\<close>

lemma split_from_no_separator: "d \<notin> set l \<Longrightarrow> split_from d piece l = [piece @ l]"
  by (induction l arbitrary: piece) auto

lemma split_from_append:
  "d \<notin> set l \<Longrightarrow> split_from d piece (l @ d # rest) = (piece @ l) # split_from d [] rest"
  by (induction l arbitrary: piece) auto

lemma str_split_no_separator: "d \<notin> set l \<Longrightarrow> str_split d l = [l]"
  by (simp add: str_split_def split_from_no_separator)

lemma str_split_append:
  "d \<notin> set l \<Longrightarrow> str_split d (l @ d # rest) = l # str_split d rest"
  by (simp add: str_split_def split_from_append)

lemma str_split_array_join:
  "ls \<noteq> [] \<Longrightarrow> \<forall>l\<in>set ls. d \<notin> set l \<Longrightarrow> str_split d (array_join [d] ls) = ls"
proof (induction "[d]" ls rule: array_join.induct)
  case 1
  then show ?case by simp
next
  case (2 x)
  then show ?case by (simp add: str_split_no_separator)
next
  case (3 x y ys)
  then show ?case by (simp add: str_split_append)
qed

lemma digitChar_not_newline: "d < 10 \<Longrightarrow> digitChar d \<noteq> newline"
proof -
  assume "d < 10"
  then have "d \<in> {0, 1, 2, 3, 4, 5, 6, 7, 8, 9}" by auto
  then show ?thesis
    by (auto simp: digitChar_def newline_def)
qed

lemma natToString_no_newline: "newline \<notin> set (natToString n)"
proof (induction n rule: natToString.induct)
  case (1 n)
  show ?case
  proof (cases "n < 10")
    case True
    then show ?thesis
      using digitChar_not_newline [of n] by (subst natToString.simps) auto
  next
    case False
    then show ?thesis
      using 1 digitChar_not_newline [of "n mod 10"] by (subst natToString.simps) auto
  qed
qed

lemma integralToString_no_newline: "newline \<notin> set (integralToString v)"
  using natToString_no_newline
  by (cases v) (auto simp: integralToString_def newline_def)

lemma integralToString_10: "integralToString (Finite 10) = ''10''"
  by (simp add: integralToString_def natToString.simps digitChar_def)

lemma integralToString_20: "integralToString (Finite 20) = ''20''"
  by (simp add: integralToString_def natToString.simps digitChar_def)

section \<open>The statistics within and beyond the argument limit\<close>











section \<open>Properties of the search filter\<close>

lemma includes_sublist: "str_includes s t = sublist t s"
  by (induction s) (auto simp: sublist_Cons_right)

text \<open>
  What the filter keeps for a non-empty term: the stations whose name or river name
  contains the term without regard to case, and those whose identifier, as it is,
  contains the lowered term.
\<close>

lemma filterStations_keeps:
  "T \<noteq> [] \<Longrightarrow>
   filterStations lc C T =
     filter (\<lambda>s. containsCI lc (stationName s) T \<or> containsCI lc (riverName s) T \<or>
                (case stationId s of None \<Rightarrow> False | Some i \<Rightarrow> sublist (lc T) i)) C"
  by (simp add: filterStations_def stationMatches_def containsCI_def includes_sublist
      split: option.splits cong: filter_cong)

lemma filterStations_scenario1:
  "filterStations toLowerCaseASCII scenario1 ''glom'' =
     [\<lparr>stationId = Some ''1'', stationName = Some ''Elv A'', riverName = Some ''Glomma''\<rparr>]"
  by (simp add: filterStations_def scenario1_def stationMatches_def toLowerCaseASCII_def
      lowerChar_def)

text \<open>
  Claim C1. The filter is to return exactly the stations whose name, river name or
  identifier contains the term as a case-insensitive substring. The code lowers the
  term, the name and the river name, but not the identifier: the station with the
  identifier \<open>A1\<close> contains the term \<open>A1\<close>, and the filter drops it.
\<close>

theorem filterStations_identifier_not_lowered:
  "specMatches toLowerCaseASCII ''A1''
     \<lparr>stationId = Some ''A1'', stationName = Some ''Elv'', riverName = None\<rparr> \<and>
   filterStations toLowerCaseASCII
     [\<lparr>stationId = Some ''A1'', stationName = Some ''Elv'', riverName = None\<rparr>] ''A1'' = []"
  by (simp add: specMatches_def containsCI_def filterStations_def stationMatches_def
      toLowerCaseASCII_def lowerChar_def)

text \<open>
  Claim C8. For every catalog \<open>C\<close> and every term \<open>T\<close>, filtering by the empty term returns
  \<open>C\<close> itself, and filtering by \<open>T\<close> returns a subsequence of \<open>C\<close>: stations of \<open>C\<close>, in
  the order of \<open>C\<close>.
\<close>

theorem filterStations_identity_subseq:
  "filterStations lc C [] = C \<and> subseq (filterStations lc C T) C"
  by (simp add: filterStations_def)

text \<open>
  Claim C9. The filter is idempotent: filtering the result once more by the same term
  changes nothing.
\<close>

theorem filterStations_idempotent:
  "filterStations lc (filterStations lc C T) T = filterStations lc C T"
  by (simp add: filterStations_def)

section \<open>Properties of the statistics\<close>
























text \<open>
  Claim C6, as stated: for a series without observations the statistics are undefined.
  They are not: the statistics object exists, and its minimum and maximum are the
  infinities, not \<open>NaN\<close>.
\<close>

theorem stats_empty_not_undefined:
  "observations emptySeries = [] \<and> \<not> statsUndefined (stats 65536 (Some emptySeries))"
  by (simp add: emptySeries_def statsUndefined_def stats_def spreadCall_def Math_min_def
      Math_max_def)

text \<open>
  Claim C6, amended. For a series without observations the statistics are the count 0,
  the minimum \<open>+Infinity\<close>, the maximum \<open>-Infinity\<close> and the mean \<open>NaN\<close>, whatever the
  number of arguments the engine accepts, and the chart points are the empty sequence.
\<close>

theorem stats_chartData_empty:
  "observations sd = [] \<Longrightarrow>
   stats maxArguments (Some sd) =
     Inr (Some \<lparr>count = 0, min_value = PosInf, max_value = NegInf, avg = NaN\<rparr>) \<and>
   chartData fmt (Some sd) = []"
  by (simp add: stats_def spreadCall_def chartData_def Math_min_def Math_max_def)

theorem stats_chartData_empty_witness:
  "observations emptySeries = [] \<and>
   stats 65536 (Some emptySeries) =
     Inr (Some \<lparr>count = 0, min_value = PosInf, max_value = NegInf, avg = NaN\<rparr>) \<and>
   chartData (\<lambda>t. t) (Some emptySeries) = []"
proof -
  have e: "observations emptySeries = []"
    by (simp add: emptySeries_def)
  from stats_chartData_empty [OF e, of 65536 "\<lambda>t. t"] e show ?thesis
    by simp
qed

section \<open>Properties of the exported text\<close>

lemma csvRow_eq:
  "csvRow nts obs =
     obs_time obs @ '','' @ (case obs_value obs of None \<Rightarrow> [] | Some v \<Rightarrow> nts v)"
  by (simp add: csvRow_def csvField_def)

lemma csvRow_fun:
  "csvRow nts =
     (\<lambda>obs. obs_time obs @ '','' @ (case obs_value obs of None \<Rightarrow> [] | Some v \<Rightarrow> nts v))"
  by (rule ext) (rule csvRow_eq)

lemma toDelimitedText_eq:
  "toDelimitedText nts sd =
     array_join [newline] ((''Time,Value ('' @ unit sd @ '')'') # map (csvRow nts) (observations sd))"
  by (simp add: toDelimitedText_def)

lemma toDelimitedText_scenario2:
  "toDelimitedText integralToString scenario2 =
     ''Time,Value (m3/s)'' @ [newline] @ ''t1,10'' @ [newline] @ ''t2,'' @ [newline] @ ''t3,20''"
  by (simp add: toDelimitedText_eq csvRow_eq scenario2_def integralToString_10
      integralToString_20)

text \<open>
  Claim C5, as stated: for every series of \<open>n\<close> observations, splitting the text at the
  line breaks yields \<open>n + 1\<close> lines, the first of which is the header. No field is
  quoted, so this fails for a unit that holds a line break: one observation, three
  lines, and the first of them is not the header.
\<close>

theorem toDelimitedText_unit_line_break:
  "length (str_split newline (toDelimitedText integralToString twoLineUnit)) \<noteq>
     length (observations twoLineUnit) + 1 \<and>
   hd (str_split newline (toDelimitedText integralToString twoLineUnit)) \<noteq>
     ''Time,Value ('' @ unit twoLineUnit @ '')''"
  by (simp add: toDelimitedText_eq csvRow_eq twoLineUnit_def integralToString_10 newline_def
      str_split_def)

text \<open>
  Claim C5, amended. For every series with unit \<open>u\<close> and \<open>n\<close> observations the text is
  the header row \<open>Time,Value (u)\<close> followed by one row per observation, in order, the
  rows joined by line breaks; a row is the timestamp as received, a comma, and the
  number as the run-time system prints it, or nothing for \<open>null\<close>. For the series of
  Scenario 2 with the unit \<open>m3/s\<close> (and a conversion that prints 10 and 20 as \<open>10\<close> and
  \<open>20\<close>) the text is the one of Scenario 5. Provided that neither the unit nor a
  timestamp holds a line break (a printed number never does), splitting the text at
  the line breaks yields these \<open>n + 1\<close> lines, the first of which is the header.
\<close>

theorem toDelimitedText_rows:
  "toDelimitedText nts sd =
     array_join [newline]
       ((''Time,Value ('' @ unit sd @ '')'') #
        map (\<lambda>obs. obs_time obs @ '','' @ (case obs_value obs of None \<Rightarrow> [] | Some v \<Rightarrow> nts v))
          (observations sd)) \<and>
   (nts (Finite 10) = ''10'' \<and> nts (Finite 20) = ''20'' \<longrightarrow>
      toDelimitedText nts scenario2 =
        ''Time,Value (m3/s)'' @ [newline] @ ''t1,10'' @ [newline] @ ''t2,'' @ [newline] @ ''t3,20'') \<and>
   (newline \<notin> set (unit sd) \<and> (\<forall>obs\<in>set (observations sd). newline \<notin> set (obs_time obs)) \<and>
    (\<forall>v. newline \<notin> set (nts v)) \<longrightarrow>
      str_split newline (toDelimitedText nts sd) =
        (''Time,Value ('' @ unit sd @ '')'') #
        map (\<lambda>obs. obs_time obs @ '','' @ (case obs_value obs of None \<Rightarrow> [] | Some v \<Rightarrow> nts v))
          (observations sd) \<and>
      length (str_split newline (toDelimitedText nts sd)) = length (observations sd) + 1 \<and>
      hd (str_split newline (toDelimitedText nts sd)) = ''Time,Value ('' @ unit sd @ '')'')"
proof -
  let ?header = "''Time,Value ('' @ unit sd @ '')''"
  let ?row = "\<lambda>obs. obs_time obs @ '','' @ (case obs_value obs of None \<Rightarrow> [] | Some v \<Rightarrow> nts v)"
  let ?lines = "?header # map ?row (observations sd)"
  have whole: "toDelimitedText nts sd = array_join [newline] ?lines"
    by (simp only: toDelimitedText_eq csvRow_fun)
  have scenario: "toDelimitedText nts scenario2 =
        ''Time,Value (m3/s)'' @ [newline] @ ''t1,10'' @ [newline] @ ''t2,'' @ [newline] @ ''t3,20''"
    if "nts (Finite 10) = ''10''" and "nts (Finite 20) = ''20''"
    using that by (simp add: toDelimitedText_eq csvRow_eq scenario2_def)
  have pieces: "str_split newline (toDelimitedText nts sd) = ?lines"
    if u: "newline \<notin> set (unit sd)"
      and t: "\<forall>obs\<in>set (observations sd). newline \<notin> set (obs_time obs)"
      and n: "\<forall>v. newline \<notin> set (nts v)"
  proof -
    have "newline \<notin> set ?header"
      using u by (simp add: newline_def)
    moreover have "newline \<notin> set (?row obs)" if "obs \<in> set (observations sd)" for obs
      using t n that by (auto simp: newline_def split: option.splits)
    ultimately have "\<forall>l\<in>set ?lines. newline \<notin> set l"
      by auto
    then show ?thesis
      unfolding whole by (intro str_split_array_join) simp_all
  qed
  show ?thesis
    using whole scenario pieces by simp
qed

theorem toDelimitedText_rows_witness:
  "integralToString (Finite 10) = ''10'' \<and> integralToString (Finite 20) = ''20'' \<and>
   newline \<notin> set (unit scenario2) \<and>
   list_all (\<lambda>obs. newline \<notin> set (obs_time obs)) (observations scenario2) \<and>
   (\<forall>v. newline \<notin> set (integralToString v)) \<and>
   toDelimitedText integralToString scenario2 =
     ''Time,Value (m3/s)'' @ [newline] @ ''t1,10'' @ [newline] @ ''t2,'' @ [newline] @ ''t3,20'' \<and>
   str_split newline (toDelimitedText integralToString scenario2) =
     [''Time,Value (m3/s)'', ''t1,10'', ''t2,'', ''t3,20''] \<and>
   length (str_split newline (toDelimitedText integralToString scenario2)) = 3 + 1"
proof -
  have p: "integralToString (Finite 10) = ''10''" "integralToString (Finite 20) = ''20''"
    by (rule integralToString_10, rule integralToString_20)
  have u: "newline \<notin> set (unit scenario2)"
    by (simp add: scenario2_def newline_def)
  have t: "\<forall>obs\<in>set (observations scenario2). newline \<notin> set (obs_time obs)"
    by (simp add: scenario2_def newline_def)
  have n: "\<forall>v. newline \<notin> set (integralToString v)"
    by (simp add: integralToString_no_newline)
  from toDelimitedText_rows [of integralToString scenario2] p u t n
  have "toDelimitedText integralToString scenario2 =
      ''Time,Value (m3/s)'' @ [newline] @ ''t1,10'' @ [newline] @ ''t2,'' @ [newline] @ ''t3,20''"
    and "str_split newline (toDelimitedText integralToString scenario2) =
      (''Time,Value ('' @ unit scenario2 @ '')'') #
      map (\<lambda>obs. obs_time obs @ '','' @
              (case obs_value obs of None \<Rightarrow> [] | Some v \<Rightarrow> integralToString v))
        (observations scenario2)"
    and "length (str_split newline (toDelimitedText integralToString scenario2)) =
      length (observations scenario2) + 1"
    by blast+
  then show ?thesis
    using p u t n by (simp add: scenario2_def list_all_iff)
qed

section \<open>Properties of the session operations\<close>

text \<open>
  Claim C10. The export does nothing, neither to the state nor to the world, when the
  series is absent or has no observation; with at least one observation it offers one
  file, named after the station and the two dates, whose text is the exported text; so
  a file is offered only when at least one observation is present.
\<close>

theorem downloadCSV_guard:
  "(stationData st = None \<or> (\<exists>sd. stationData st = Some sd \<and> observations sd = []) \<longrightarrow>
      downloadCSV nts st = st) \<and>
   (\<forall>sd. stationData st = Some sd \<and> observations sd \<noteq> [] \<longrightarrow>
      downloadCSV nts st =
        st\<lparr>downloads := downloads st @
             [\<lparr>fileName = seriesStationId sd @ ''_'' @ startDate st @ ''_'' @ endDate st @ ''.csv'',
               content = toDelimitedText nts sd\<rparr>]\<rparr>) \<and>
   (downloads (downloadCSV nts st) \<noteq> downloads st \<longrightarrow>
      (\<exists>sd. stationData st = Some sd \<and> observations sd \<noteq> []))"
  by (auto simp: downloadCSV_def split: option.splits)

theorem downloadCSV_guard_witness:
  "stationData (connectedSession\<lparr>stationData := None\<rparr>) = None \<and>
   downloadCSV integralToString (connectedSession\<lparr>stationData := None\<rparr>) =
     connectedSession\<lparr>stationData := None\<rparr> \<and>
   stationData (connectedSession\<lparr>stationData := Some emptySeries\<rparr>) = Some emptySeries \<and>
   observations emptySeries = [] \<and>
   downloadCSV integralToString (connectedSession\<lparr>stationData := Some emptySeries\<rparr>) =
     connectedSession\<lparr>stationData := Some emptySeries\<rparr> \<and>
   stationData connectedSession = Some scenario2 \<and> observations scenario2 \<noteq> [] \<and>
   downloads (downloadCSV integralToString connectedSession) =
     [\<lparr>fileName = ''1_2024-01-01_2024-01-08.csv'',
       content = toDelimitedText integralToString scenario2\<rparr>]"
proof -
  let ?none = "connectedSession\<lparr>stationData := None\<rparr>"
  let ?empty = "connectedSession\<lparr>stationData := Some emptySeries\<rparr>"
  have n: "stationData ?none = None"
    by simp
  have e: "stationData ?empty = Some emptySeries" "observations emptySeries = []"
    by (simp_all add: emptySeries_def)
  have s: "stationData connectedSession = Some scenario2" "observations scenario2 \<noteq> []"
    by (simp_all add: connectedSession_def scenario2_def)
  have "downloadCSV integralToString ?none = ?none"
    using downloadCSV_guard [of ?none integralToString] n by blast
  moreover have "downloadCSV integralToString ?empty = ?empty"
    using downloadCSV_guard [of ?empty integralToString] e by blast
  moreover have "downloadCSV integralToString connectedSession =
      connectedSession\<lparr>downloads := downloads connectedSession @
        [\<lparr>fileName = seriesStationId scenario2 @ ''_'' @ startDate connectedSession @ ''_'' @
            endDate connectedSession @ ''.csv'',
          content = toDelimitedText integralToString scenario2\<rparr>]\<rparr>"
    using downloadCSV_guard [of connectedSession integralToString] s by blast
  then have "downloads (downloadCSV integralToString connectedSession) =
      [\<lparr>fileName = ''1_2024-01-01_2024-01-08.csv'',
        content = toDelimitedText integralToString scenario2\<rparr>]"
    by (simp add: connectedSession_def initialSession_def scenario2_def)
  ultimately show ?thesis
    using n e s by simp
qed

text \<open>
  Claim C2, as stated: whenever the request fails, a response of a non-success status
  included, a message is shown and the catalog keeps its value. The status is never
  read: the answer 401 with a JSON body without \<open>data\<close> shows no message and replaces the
  catalog by the empty one.
\<close>

theorem fetchStations_status_not_read:
  "apiKey connectedSession \<noteq> [] \<and>
   fetchFailed (Body 401 None :: station response) \<and>
   alerts (fetchStations connectedSession (Body 401 None)) = alerts connectedSession \<and>
   stations (fetchStations connectedSession (Body 401 None)) \<noteq> stations connectedSession"
  by (simp add: fetchFailed_def fetchStations_def connectedSession_def initialSession_def
      scenario1_def)

text \<open>
  Claim C2, amended. With a key: when the request is rejected (a network error) or the
  data of the body cannot be read (the body is no JSON text, or it is the JSON \<open>null\<close>),
  whatever the status, the message
  \<open>Error fetching stations: \<close> followed by the description of the failure is shown and
  the catalog keeps its value, which is the empty one in the initial state; when a JSON
  body other than \<open>null\<close> arrives, whatever the status, no message is shown, the catalog becomes the
  \<open>data\<close> array of the body (the empty one if the body has none) and the flag that asks
  for the key is cleared.
\<close>

theorem fetchStations_outcomes:
  "(apiKey st \<noteq> [] \<longrightarrow>
      alerts (fetchStations st (NetworkError msg)) =
        alerts st @ [''Error fetching stations: '' @ msg] \<and>
      stations (fetchStations st (NetworkError msg)) = stations st \<and>
      alerts (fetchStations st (BodyError status msg)) =
        alerts st @ [''Error fetching stations: '' @ msg] \<and>
      stations (fetchStations st (BodyError status msg)) = stations st \<and>
      alerts (fetchStations st (Body status d)) = alerts st \<and>
      stations (fetchStations st (Body status d)) = (case d of None \<Rightarrow> [] | Some xs \<Rightarrow> xs) \<and>
      \<not> showApiKeyInput (fetchStations st (Body status d))) \<and>
   stations (fetchStations (initialSession key weekAgo today) (NetworkError msg)) = [] \<and>
   stations (fetchStations (initialSession key weekAgo today) (BodyError status msg)) = []"
  by (simp add: fetchStations_def initialSession_def Let_def)

theorem fetchStations_outcomes_witness:
  "apiKey connectedSession \<noteq> [] \<and>
   alerts (fetchStations connectedSession (NetworkError ''Failed to fetch'')) =
     [''Error fetching stations: Failed to fetch''] \<and>
   stations (fetchStations connectedSession (NetworkError ''Failed to fetch'')) = scenario1 \<and>
   stations (fetchStations connectedSession (Body 200 (Some []))) = [] \<and>
   stations (fetchStations (initialSession ''key'' ''2024-01-01'' ''2024-01-08'')
     (Body 200 (Some scenario1))) = scenario1 \<and>
   \<not> showApiKeyInput (fetchStations (initialSession ''key'' ''2024-01-01'' ''2024-01-08'')
     (Body 200 (Some scenario1)))"
proof -
  have k: "apiKey connectedSession \<noteq> []"
      "apiKey (initialSession ''key'' ''2024-01-01'' ''2024-01-08'') \<noteq> []"
    by (simp_all add: connectedSession_def initialSession_def)
  from fetchStations_outcomes [of connectedSession "''Failed to fetch''" 200 "Some []"] k(1)
  have "alerts (fetchStations connectedSession (NetworkError ''Failed to fetch'')) =
      alerts connectedSession @ [''Error fetching stations: '' @ ''Failed to fetch'']"
    and "stations (fetchStations connectedSession (NetworkError ''Failed to fetch'')) =
      stations connectedSession"
    and "stations (fetchStations connectedSession (Body 200 (Some []))) = []"
    by simp_all
  moreover
  from fetchStations_outcomes
    [of "initialSession ''key'' ''2024-01-01'' ''2024-01-08''" "[]" 200 "Some scenario1"] k(2)
  have "stations (fetchStations (initialSession ''key'' ''2024-01-01'' ''2024-01-08'')
      (Body 200 (Some scenario1))) = scenario1"
    and "\<not> showApiKeyInput (fetchStations (initialSession ''key'' ''2024-01-01'' ''2024-01-08'')
      (Body 200 (Some scenario1)))"
    by simp_all
  ultimately show ?thesis
    using k(1) by (simp add: connectedSession_def initialSession_def)
qed

text \<open>
  Claim C4, as stated: the observation fetch does nothing when the key is empty, a date
  is empty, or the station identifier is empty. The guard does not read the identifier:
  with a key, both dates and the empty identifier the series at hand is dropped and a
  request is sent.
\<close>

theorem fetchStationData_empty_identifier:
  "fetchStationData connectedSession (IdString []) (NetworkError ''Failed to fetch'') \<noteq>
     connectedSession \<and>
   stationData connectedSession = Some scenario2 \<and>
   stationData
     (fetchStationData connectedSession (IdString []) (NetworkError ''Failed to fetch'')) =
     None \<and>
   requests
     (fetchStationData connectedSession (IdString []) (NetworkError ''Failed to fetch'')) =
     [GetObservations ''key'' [] ''1001'' ''2024-01-01/2024-01-08'']"
proof -
  let ?after =
    "fetchStationData connectedSession (IdString []) (NetworkError ''Failed to fetch'')"
  have r: "requests ?after = [GetObservations ''key'' [] ''1001'' ''2024-01-01/2024-01-08'']"
    by (simp add: fetchStationData_def connectedSession_def initialSession_def)
  have d: "stationData ?after = None"
    by (simp add: fetchStationData_def connectedSession_def initialSession_def)
  have b: "stationData connectedSession = Some scenario2"
    by (simp add: connectedSession_def)
  have "?after \<noteq> connectedSession"
  proof
    assume "?after = connectedSession"
    then have "stationData ?after = stationData connectedSession"
      by simp
    with d b show False
      by simp
  qed
  with r d b show ?thesis
    by simp
qed

text \<open>
  Claim C4, amended. The observation fetch does nothing, neither to the state nor to
  the world, when the key is empty or one of the two dates is empty. Otherwise, whatever
  the station identifier, the empty one included, it sends one request, for that
  identifier (a missing one as the text \<open>undefined\<close>, a \<open>null\<close> one as the text \<open>null\<close>),
  the selected parameter and the two dates joined by a slash, and it drops the series
  at hand: afterwards the series is the one built from the first entry of the data of
  the response, and absent when the request failed or the response has no entry; a
  failure is shown as a message, and the loading flag is cleared.
\<close>

theorem fetchStationData_guard:
  "(apiKey st = [] \<or> startDate st = [] \<or> endDate st = [] \<longrightarrow>
      fetchStationData st sid resp = st) \<and>
   (apiKey st \<noteq> [] \<and> startDate st \<noteq> [] \<and> endDate st \<noteq> [] \<longrightarrow>
      requests (fetchStationData st sid resp) =
        requests st @
          [GetObservations (apiKey st) (queryText sid) (parameter st)
             (startDate st @ ''/'' @ endDate st)] \<and>
      stationData (fetchStationData st sid resp) =
        (case resp of
           Body status (Some (g # gs)) \<Rightarrow>
             Some \<lparr>seriesStationId = groupStationId g,
                   seriesStationName = groupStationName g,
                   seriesParameter = parameterName g,
                   unit = groupUnit g,
                   observations = (case groupObservations g of None \<Rightarrow> [] | Some os \<Rightarrow> os)\<rparr>
         | _ \<Rightarrow> None) \<and>
      alerts (fetchStationData st sid resp) =
        (case resp of
           NetworkError msg \<Rightarrow> alerts st @ [''Error fetching station data: '' @ msg]
         | BodyError status msg \<Rightarrow> alerts st @ [''Error fetching station data: '' @ msg]
         | Body status d \<Rightarrow> alerts st) \<and>
      \<not> loading (fetchStationData st sid resp))"
  by (auto simp: fetchStationData_def Let_def split: response.splits option.splits list.splits)

theorem fetchStationData_guard_witness:
  "apiKey (connectedSession\<lparr>apiKey := []\<rparr>) = [] \<and>
   fetchStationData (connectedSession\<lparr>apiKey := []\<rparr>) (IdString ''1'') (Body 200 None) =
     connectedSession\<lparr>apiKey := []\<rparr> \<and>
   startDate (connectedSession\<lparr>startDate := []\<rparr>) = [] \<and>
   fetchStationData (connectedSession\<lparr>startDate := []\<rparr>) (IdString ''1'') (Body 200 None) =
     connectedSession\<lparr>startDate := []\<rparr> \<and>
   endDate (connectedSession\<lparr>endDate := []\<rparr>) = [] \<and>
   fetchStationData (connectedSession\<lparr>endDate := []\<rparr>) (IdString ''1'') (Body 200 None) =
     connectedSession\<lparr>endDate := []\<rparr> \<and>
   apiKey connectedSession \<noteq> [] \<and> startDate connectedSession \<noteq> [] \<and>
   endDate connectedSession \<noteq> [] \<and>
   requests (fetchStationData connectedSession IdNull (Body 200 None)) =
     [GetObservations ''key'' ''null'' ''1001'' ''2024-01-01/2024-01-08''] \<and>
   stationData connectedSession = Some scenario2 \<and>
   stationData (fetchStationData connectedSession IdNull (Body 200 None)) = None \<and>
   alerts (fetchStationData connectedSession IdNull (Body 200 None)) = []"
proof -
  let ?r = "Body 200 None :: seriesGroup response"
  have g: "apiKey connectedSession \<noteq> []" "startDate connectedSession \<noteq> []"
      "endDate connectedSession \<noteq> []"
    by (simp_all add: connectedSession_def initialSession_def)
  have "fetchStationData (connectedSession\<lparr>apiKey := []\<rparr>) (IdString ''1'') ?r =
      connectedSession\<lparr>apiKey := []\<rparr>"
    using fetchStationData_guard [of "connectedSession\<lparr>apiKey := []\<rparr>" "IdString ''1''" ?r]
    by simp
  moreover have "fetchStationData (connectedSession\<lparr>startDate := []\<rparr>) (IdString ''1'') ?r =
      connectedSession\<lparr>startDate := []\<rparr>"
    using fetchStationData_guard [of "connectedSession\<lparr>startDate := []\<rparr>" "IdString ''1''" ?r]
    by simp
  moreover have "fetchStationData (connectedSession\<lparr>endDate := []\<rparr>) (IdString ''1'') ?r =
      connectedSession\<lparr>endDate := []\<rparr>"
    using fetchStationData_guard [of "connectedSession\<lparr>endDate := []\<rparr>" "IdString ''1''" ?r]
    by simp
  moreover have "requests (fetchStationData connectedSession IdNull ?r) =
      requests connectedSession @
        [GetObservations (apiKey connectedSession) (queryText IdNull) (parameter connectedSession)
           (startDate connectedSession @ ''/'' @ endDate connectedSession)]"
    and "stationData (fetchStationData connectedSession IdNull ?r) = None"
    and "alerts (fetchStationData connectedSession IdNull ?r) = alerts connectedSession"
    using fetchStationData_guard [of connectedSession IdNull ?r] g by simp_all
  then have "requests (fetchStationData connectedSession IdNull ?r) =
      [GetObservations ''key'' ''null'' ''1001'' ''2024-01-01/2024-01-08'']"
    and "stationData (fetchStationData connectedSession IdNull ?r) = None"
    and "alerts (fetchStationData connectedSession IdNull ?r) = []"
    by (simp_all add: connectedSession_def initialSession_def)
  moreover have "stationData connectedSession = Some scenario2"
    by (simp add: connectedSession_def)
  ultimately show ?thesis
    using g by simp
qed

end
